theory Spec2Isabelle
  imports Complex_Main "HOL-Library.Multiset"
begin

section \<open>Python values used by Project.py\<close>

text \<open>
  A Python \<open>str\<close> is a sequence of Unicode code points; the column names and the search
  patterns of the program are Cyrillic, so a string is a list of code points.
\<close>

type_synonym pystr = "nat list"

text \<open>
  A Python \<open>float\<close>, up to the sign of zero (which no comparison and no division by it
  tells apart): a finite value, an infinity or NaN.
\<close>

datatype pyfloat = Num rat | PosInf | NegInf | NaN

text \<open>The comparisons \<open><\<close> and \<open><=\<close> of floats: every comparison with NaN is false.\<close>

fun flt :: "pyfloat \<Rightarrow> pyfloat \<Rightarrow> bool" where
  "flt NaN y = False"
| "flt x NaN = False"
| "flt (Num a) (Num b) = (a < b)"
| "flt (Num a) PosInf = True"
| "flt (Num a) NegInf = False"
| "flt PosInf y = False"
| "flt NegInf NegInf = False"
| "flt NegInf y = True"

fun fle :: "pyfloat \<Rightarrow> pyfloat \<Rightarrow> bool" where
  "fle NaN y = False"
| "fle x NaN = False"
| "fle (Num a) (Num b) = (a \<le> b)"
| "fle (Num a) PosInf = True"
| "fle (Num a) NegInf = False"
| "fle PosInf PosInf = True"
| "fle PosInf y = False"
| "fle NegInf y = True"

definition is_zero :: "pyfloat \<Rightarrow> bool" where
  "is_zero x = (x = Num 0)"

text \<open>The exceptions the program can meet.\<close>

datatype exn =
    TypeError | ValueError | ZeroDivisionError | AttributeError
  | ReError | IOError | CsvError | EOFError

text \<open>
  The parts of the Python runtime whose full behaviour is outside the repository are
  parameters of the model:
  \<^item> \<open>re_valid p\<close>: the pattern \<open>p\<close> compiles (\<open>re.error\<close> otherwise);
  \<^item> \<open>re_found p s\<close>: for a pattern that compiles, \<open>re.search(p, s, re.IGNORECASE)\<close>
    finds a match;
  \<^item> \<open>str_lower s\<close>: \<open>s.lower()\<close>;
  \<^item> \<open>float_of s\<close>: \<open>float(s)\<close> for a string; \<open>None\<close> is \<open>ValueError\<close>;
  \<^item> \<open>truediv x y\<close>: \<open>x / y\<close> for a divisor that is not zero;
  \<^item> \<open>round2 x\<close>: \<open>round(x, 2)\<close>.
\<close>

record pylib =
  re_valid :: "pystr \<Rightarrow> bool"
  re_found :: "pystr \<Rightarrow> pystr \<Rightarrow> bool"
  str_lower :: "pystr \<Rightarrow> pystr"
  float_of :: "pystr \<Rightarrow> pyfloat option"
  truediv :: "pyfloat \<Rightarrow> pyfloat \<Rightarrow> pyfloat"
  round2 :: "pyfloat \<Rightarrow> pyfloat"

text \<open>
  \<open>re.search(pattern, s, re.IGNORECASE)\<close> as a truth value. The pattern is compiled
  first, so a malformed pattern raises \<open>re.error\<close> whatever the subject is; a subject
  that is \<open>None\<close> raises \<open>TypeError\<close>.
\<close>

definition re_search :: "pylib \<Rightarrow> pystr \<Rightarrow> pystr option \<Rightarrow> exn + bool" where
  "re_search L pattern s =
     (if \<not> re_valid L pattern then Inl ReError
      else case s of None \<Rightarrow> Inl TypeError | Some t \<Rightarrow> Inr (re_found L pattern t))"

definition py_float :: "pylib \<Rightarrow> pystr \<Rightarrow> exn + pyfloat" where
  "py_float L s = (case float_of L s of None \<Rightarrow> Inl ValueError | Some x \<Rightarrow> Inr x)"

text \<open>Float division raises \<open>ZeroDivisionError\<close> exactly when the divisor is zero.\<close>

definition py_truediv :: "pylib \<Rightarrow> pyfloat \<Rightarrow> pyfloat \<Rightarrow> exn + pyfloat" where
  "py_truediv L x y = (if is_zero y then Inl ZeroDivisionError else Inr (truediv L x y))"

text \<open>
  \<open>str.strip()\<close> removes the leading and trailing white space; the code points below
  are the ones \<open>str.isspace\<close> accepts.
\<close>

definition isspace :: "nat \<Rightarrow> bool" where
  "isspace c =
     (c \<in> {9, 10, 11, 12, 13, 28, 29, 30, 31, 32, 133, 160, 5760,
            8232, 8233, 8239, 8287, 12288} \<or> (8192 \<le> c \<and> c \<le> 8202))"

definition strip :: "pystr \<Rightarrow> pystr" where
  "strip s = rev (dropWhile isspace (rev (dropWhile isspace s)))"

text \<open>\<open>s.replace(',', '.')\<close>: every comma becomes a full stop.\<close>

definition replace_comma :: "pystr \<Rightarrow> pystr" where
  "replace_comma s = map (\<lambda>c. if c = 44 then 46 else c) s"

fun startswith :: "pystr \<Rightarrow> pystr \<Rightarrow> bool" where
  "startswith s [] = True"
| "startswith [] (p # ps) = False"
| "startswith (c # s) (p # ps) = (c = p \<and> startswith s ps)"

text \<open>\<open>sub in s\<close>: \<open>sub\<close> occurs in \<open>s\<close> as a contiguous run.\<close>

fun py_in :: "pystr \<Rightarrow> pystr \<Rightarrow> bool" where
  "py_in sub [] = (sub = [])"
| "py_in sub (c # s) = (startswith (c # s) sub \<or> py_in sub s)"

definition endswith :: "pystr \<Rightarrow> pystr \<Rightarrow> bool" where
  "endswith s suf = startswith (rev s) (rev suf)"

section \<open>The data of the program\<close>

text \<open>
  A row as \<open>csv.DictReader\<close> yields it: a dict in column order. A short line gives the
  missing columns the value \<open>None\<close>; the surplus cells of a long line are stored as a
  list under the key \<open>None\<close>, which comes last.
\<close>

datatype cell = Text pystr | NoneCell | ListCell "pystr list"

type_synonym row = "(pystr option \<times> cell) list"

text \<open>
  One element of \<open>self.data\<close>: the list
  \<open>[file_name, product_name, price, weight, round(price / weight, 2)]\<close>.
\<close>

record entry =
  file_name :: pystr
  product_name :: pystr
  price :: pyfloat
  weight :: pyfloat
  ratio :: pyfloat

text \<open>What the program prints, and the files it writes, in order.\<close>

datatype event =
    RowError row exn
  | FileError pystr exn
  | Prompt
  | ShowResult "entry list"
  | WriteHtml pystr "entry list"
  | FindSaved pystr
  | AllSaved pystr
  | Finished

text \<open>The list \<open>self.data\<close> of a \<open>PriceMachine\<close>, together with the output so far.\<close>

record pm_state =
  data :: "entry list"
  events :: "event list"

text \<open>
  The files the program reads. Opening a file fails with an \<open>OSError\<close> (Python's
  \<open>IOError\<close>), or the reader yields rows and then is exhausted or raises.
\<close>

datatype csv_file = CannotOpen | Reading "row list" "exn option"

record env =
  listdir :: "pystr \<Rightarrow> exn + pystr list"
  files :: "pystr \<Rightarrow> csv_file"

section \<open>The methods of PriceMachine\<close>

text \<open>
  The three patterns of \<open>row_handle\<close>:
  \<open>(nazvanie|produkt|tovar|naimenovanie)\<close>, \<open>(cena|roznica)\<close> and
  \<open>(fasovka|massa|ves)\<close>, in Cyrillic.
\<close>

definition pat_name :: pystr where
  "pat_name = [40, 1085, 1072, 1079, 1074, 1072, 1085, 1080, 1077, 124,
               1087, 1088, 1086, 1076, 1091, 1082, 1090, 124,
               1090, 1086, 1074, 1072, 1088, 124,
               1085, 1072, 1080, 1084, 1077, 1085, 1086, 1074, 1072, 1085, 1080, 1077, 41]"

definition pat_price :: pystr where
  "pat_price = [40, 1094, 1077, 1085, 1072, 124, 1088, 1086, 1079, 1085, 1080, 1094, 1072, 41]"

definition pat_weight :: pystr where
  "pat_weight = [40, 1092, 1072, 1089, 1086, 1074, 1082, 1072, 124,
                 1084, 1072, 1089, 1089, 1072, 124, 1074, 1077, 1089, 41]"

text \<open>
  \<open>extract_value\<close>: the loop over \<open>row.items()\<close>. \<open>re.search\<close> raises on a key that is
  \<open>None\<close>; \<open>value.strip()\<close> raises \<open>AttributeError\<close> on a value that is not a string.
\<close>

fun extract_value :: "pylib \<Rightarrow> row \<Rightarrow> pystr \<Rightarrow> exn + pystr" where
  "extract_value L [] pattern = Inr []"
| "extract_value L ((column_name, v) # rest) pattern =
     (case re_search L pattern column_name of
        Inl e \<Rightarrow> Inl e
      | Inr True \<Rightarrow> (case v of Text s \<Rightarrow> Inr (strip s) | _ \<Rightarrow> Inl AttributeError)
      | Inr False \<Rightarrow> extract_value L rest pattern)"

text \<open>
  The body of the \<open>try\<close> of \<open>row_handle\<close> up to the argument of \<open>append\<close>: every step
  can raise, and the list is only touched by the final \<open>append\<close>.
\<close>

definition row_entry :: "pylib \<Rightarrow> pystr \<Rightarrow> row \<Rightarrow> exn + entry" where
  "row_entry L fname r =
     (case extract_value L r pat_name of Inl e \<Rightarrow> Inl e | Inr nm \<Rightarrow>
      case extract_value L r pat_price of Inl e \<Rightarrow> Inl e | Inr ptxt \<Rightarrow>
      case py_float L (replace_comma ptxt) of Inl e \<Rightarrow> Inl e | Inr p \<Rightarrow>
      case extract_value L r pat_weight of Inl e \<Rightarrow> Inl e | Inr wtxt \<Rightarrow>
      case py_float L (replace_comma wtxt) of Inl e \<Rightarrow> Inl e | Inr w \<Rightarrow>
      case py_truediv L p w of Inl e \<Rightarrow> Inl e | Inr q \<Rightarrow>
        Inr \<lparr>file_name = fname, product_name = nm, price = p, weight = w,
             ratio = round2 L q\<rparr>)"

text \<open>
  \<open>row_handle\<close>: \<open>except (TypeError, ValueError)\<close> prints the row and the error; any
  other exception leaves the method. The result is the exception that leaves it, if
  any, and the state.
\<close>

definition row_handle :: "pylib \<Rightarrow> pystr \<Rightarrow> row \<Rightarrow> pm_state \<Rightarrow> exn option \<times> pm_state" where
  "row_handle L fname r st =
     (case row_entry L fname r of
        Inr e \<Rightarrow> (None, st\<lparr>data := data st @ [e]\<rparr>)
      | Inl ex \<Rightarrow>
          if ex = TypeError \<or> ex = ValueError
          then (None, st\<lparr>events := events st @ [RowError r ex]\<rparr>)
          else (Some ex, st))"

text \<open>The \<open>for row in reader\<close> loop of \<open>load_data\<close>, over the rows the reader yields.\<close>

fun rows_loop :: "pylib \<Rightarrow> pystr \<Rightarrow> row list \<Rightarrow> pm_state \<Rightarrow> exn option \<times> pm_state" where
  "rows_loop L fname [] st = (None, st)"
| "rows_loop L fname (r # rs) st =
     (case row_handle L fname r st of
        (None, st') \<Rightarrow> rows_loop L fname rs st'
      | (Some ex, st') \<Rightarrow> (Some ex, st'))"

text \<open>The handler \<open>except (IOError, csv.Error)\<close> of \<open>load_data\<close>.\<close>

definition file_handler :: "pystr \<Rightarrow> exn \<Rightarrow> pm_state \<Rightarrow> exn option \<times> pm_state" where
  "file_handler file_path ex st =
     (if ex = IOError \<or> ex = CsvError
      then (None, st\<lparr>events := events st @ [FileError file_path ex]\<rparr>)
      else (Some ex, st))"

definition load_data :: "pylib \<Rightarrow> env \<Rightarrow> pystr \<Rightarrow> pm_state \<Rightarrow> exn option \<times> pm_state" where
  "load_data L E file_path st =
     (case files E file_path of
        CannotOpen \<Rightarrow> file_handler file_path IOError st
      | Reading rows fin \<Rightarrow>
          (case rows_loop L file_path rows st of
             (Some ex, st') \<Rightarrow> file_handler file_path ex st'
           | (None, st') \<Rightarrow>
               (case fin of None \<Rightarrow> (None, st') | Some ex \<Rightarrow> file_handler file_path ex st')))"

text \<open>
  The loop of \<open>load_prices\<close> over the directory listing, with its test
  \<open>filename.endswith('.csv') and 'price' in filename.lower()\<close>.
  \<open>os.path.join(filename)\<close> is \<open>filename\<close>.
\<close>

definition is_price_file :: "pylib \<Rightarrow> pystr \<Rightarrow> bool" where
  "is_price_file L filename =
     (endswith filename [46, 99, 115, 118] \<and>
      py_in [112, 114, 105, 99, 101] (str_lower L filename))"

fun files_loop :: "pylib \<Rightarrow> env \<Rightarrow> pystr list \<Rightarrow> pm_state \<Rightarrow> exn option \<times> pm_state" where
  "files_loop L E [] st = (None, st)"
| "files_loop L E (filename # rest) st =
     (if is_price_file L filename
      then (case load_data L E filename st of
              (None, st') \<Rightarrow> files_loop L E rest st'
            | (Some ex, st') \<Rightarrow> (Some ex, st'))
      else files_loop L E rest st)"

definition load_prices :: "pylib \<Rightarrow> env \<Rightarrow> pystr \<Rightarrow> pm_state \<Rightarrow> exn option \<times> pm_state" where
  "load_prices L E directory st =
     (case listdir E directory of
        Inl ex \<Rightarrow> (Some ex, st\<lparr>data := []\<rparr>)
      | Inr names \<Rightarrow> files_loop L E names (st\<lparr>data := []\<rparr>))"

text \<open>
  \<open>sorted(xs, key=...)\<close> and \<open>list.sort(key=...)\<close>: a stable sort that compares keys
  with \<open><\<close> only. Where \<open><\<close> orders the keys totally (no key is NaN) every such sort
  gives the same list, the one insertion computes here. With a NaN among the keys the
  list CPython leaves depends on the runs it finds; a list that has no element smaller
  than its predecessor, as the keys \<open>2.0, nan, 1.0\<close> have none, is one run and is
  left as it is, by CPython and by the insertion here. On other lists with a NaN key
  the two can differ (the keys \<open>1, 3, nan, 2\<close> are an example); nothing below is
  about such a list.
\<close>

fun insort_lt :: "('a \<Rightarrow> pyfloat) \<Rightarrow> 'a \<Rightarrow> 'a list \<Rightarrow> 'a list" where
  "insort_lt key x [] = [x]"
| "insort_lt key x (y # ys) =
     (if flt (key y) (key x) then y # insort_lt key x ys else x # y # ys)"

fun py_sorted :: "('a \<Rightarrow> pyfloat) \<Rightarrow> 'a list \<Rightarrow> 'a list" where
  "py_sorted key [] = []"
| "py_sorted key (x # xs) = insort_lt key x (py_sorted key xs)"

text \<open>
  The list comprehension of \<open>search_element\<close>: \<open>re.search(query, row[1], re.IGNORECASE)\<close>
  is evaluated for each element of \<open>self.data\<close> in order.
\<close>

fun search_rows :: "pylib \<Rightarrow> pystr \<Rightarrow> entry list \<Rightarrow> exn + entry list" where
  "search_rows L query [] = Inr []"
| "search_rows L query (r # rs) =
     (case re_search L query (Some (product_name r)) of
        Inl ex \<Rightarrow> Inl ex
      | Inr b \<Rightarrow>
          (case search_rows L query rs of
             Inl ex \<Rightarrow> Inl ex
           | Inr result \<Rightarrow> Inr (if b then r # result else result)))"

definition search_element :: "pylib \<Rightarrow> pystr \<Rightarrow> pm_state \<Rightarrow> exn + entry list" where
  "search_element L query st =
     (case search_rows L query (data st) of
        Inl ex \<Rightarrow> Inl ex
      | Inr result \<Rightarrow> Inr (py_sorted ratio result))"

text \<open>
  \<open>export_to_html_all\<close>: sorts \<open>self.data\<close> in place by the ratio, writes the table and
  prints where it was saved. Writing a file is taken to succeed.
\<close>

definition export_to_html_all :: "pystr \<Rightarrow> pm_state \<Rightarrow> pm_state" where
  "export_to_html_all fname st =
     (let sorted_data = py_sorted ratio (data st)
      in st\<lparr>data := sorted_data,
            events := events st @ [WriteHtml fname sorted_data, AllSaved fname]\<rparr>)"

definition output_find :: pystr where
  "output_find = [111, 117, 116, 112, 117, 116, 95, 102, 105, 110, 100, 46, 104, 116, 109, 108]"

definition output_all :: pystr where
  "output_all = [111, 117, 116, 112, 117, 116, 95, 97, 108, 108, 46, 104, 116, 109, 108]"

definition find_text :: "pylib \<Rightarrow> pystr \<Rightarrow> pm_state \<Rightarrow> exn option \<times> pm_state" where
  "find_text L query st =
     (case search_element L query st of
        Inl ex \<Rightarrow> (Some ex, st)
      | Inr result \<Rightarrow>
          (None, export_to_html_all output_all
             (st\<lparr>events := events st @
                  [ShowResult result, WriteHtml output_find result, FindSaved output_find]\<rparr>)))"

text \<open>
  The \<open>while True\<close> loop of \<open>main\<close>, over the lines typed at the prompt; \<open>input\<close> raises
  \<open>EOFError\<close> when there is no further line. The loop ends when the lowered query
  occurs in \<open>'exit'\<close>.
\<close>

fun main_loop :: "pylib \<Rightarrow> pystr list \<Rightarrow> pm_state \<Rightarrow> exn option \<times> pm_state" where
  "main_loop L [] st = (Some EOFError, st\<lparr>events := events st @ [Prompt]\<rparr>)"
| "main_loop L (query # rest) st =
     (if py_in (str_lower L query) [101, 120, 105, 116]
      then (None, st\<lparr>events := events st @ [Prompt, Finished]\<rparr>)
      else (case find_text L query (st\<lparr>events := events st @ [Prompt]\<rparr>) of
              (None, st') \<Rightarrow> main_loop L rest st'
            | (Some ex, st') \<Rightarrow> (Some ex, st')))"

definition main :: "pylib \<Rightarrow> env \<Rightarrow> pystr \<Rightarrow> pystr list \<Rightarrow> pm_state \<Rightarrow> exn option \<times> pm_state" where
  "main L E directory inputs st =
     (case load_prices L E directory st of
        (None, st') \<Rightarrow> main_loop L inputs st'
      | (Some ex, st') \<Rightarrow> (Some ex, st'))"

section \<open>A reference instance of the runtime\<close>

text \<open>
  The scenarios below are evaluated with this instance of the runtime's parameters. It
  covers the fragment of Python the scenarios use, and agrees with CPython there:
  \<^item> patterns that are a literal text, or a parenthesised alternation of literal texts,
    searched case-insensitively in subjects of ASCII and basic Cyrillic letters; any
    other pattern is reported as malformed, as the unclosed group \<open>(\<close> is;
  \<^item> lower-casing of ASCII and basic Cyrillic letters;
  \<^item> float literals of the form sign, digits, point, digits, and \<open>nan\<close>, \<open>inf\<close>,
    \<open>infinity\<close>, with exact arithmetic, which is what binary floating point gives
    when operands and result are representable (as \<open>80.5\<close>, \<open>1.0\<close> and \<open>120.0\<close> are).
  Outside this fragment (a pattern with other operators, a literal with an exponent)
  the instance answers as for a malformed pattern or a text that is no number, which
  CPython need not do. The theorems about the program hold for every runtime; only the
  scenarios use this one.
\<close>

definition ref_lower_cp :: "nat \<Rightarrow> nat" where
  "ref_lower_cp c =
     (if 65 \<le> c \<and> c \<le> 90 then c + 32
      else if 1040 \<le> c \<and> c \<le> 1071 then c + 32
      else if 1024 \<le> c \<and> c \<le> 1039 then c + 80
      else c)"

definition ref_lower :: "pystr \<Rightarrow> pystr" where
  "ref_lower s = map ref_lower_cp s"

definition metachar :: "nat \<Rightarrow> bool" where
  "metachar c = (c \<in> {46, 94, 36, 42, 43, 63, 123, 125, 91, 93, 92, 124, 40, 41})"

fun split_bar :: "pystr \<Rightarrow> pystr list" where
  "split_bar [] = [[]]"
| "split_bar (c # s) =
     (if c = 124 then [] # split_bar s
      else (case split_bar s of a # as \<Rightarrow> (c # a) # as | [] \<Rightarrow> [[c]]))"

definition ref_alts :: "pystr \<Rightarrow> pystr list option" where
  "ref_alts p =
     (if \<not> list_ex metachar p then Some [p]
      else (case p of
              [] \<Rightarrow> None
            | c # r \<Rightarrow>
                if c = 40 \<and> r \<noteq> [] \<and> last r = 41 \<and>
                   \<not> list_ex (\<lambda>d. metachar d \<and> d \<noteq> 124) (butlast r)
                then Some (split_bar (butlast r))
                else None))"

definition ref_valid :: "pystr \<Rightarrow> bool" where
  "ref_valid p = (ref_alts p \<noteq> None)"

definition ref_found :: "pystr \<Rightarrow> pystr \<Rightarrow> bool" where
  "ref_found p s =
     (case ref_alts p of
        None \<Rightarrow> False
      | Some alts \<Rightarrow> list_ex (\<lambda>a. py_in (ref_lower a) (ref_lower s)) alts)"

definition isdigit :: "nat \<Rightarrow> bool" where
  "isdigit c = (48 \<le> c \<and> c \<le> 57)"

fun digits_val :: "nat \<Rightarrow> pystr \<Rightarrow> nat" where
  "digits_val acc [] = acc"
| "digits_val acc (c # s) = digits_val (10 * acc + (c - 48)) s"

definition ref_unsigned :: "pystr \<Rightarrow> pyfloat option" where
  "ref_unsigned s =
     (if ref_lower s = [110, 97, 110] then Some NaN
      else if ref_lower s = [105, 110, 102] \<or>
              ref_lower s = [105, 110, 102, 105, 110, 105, 116, 121] then Some PosInf
      else
        (let ip = takeWhile isdigit s; rest = dropWhile isdigit s;
             fp = (case rest of [] \<Rightarrow> [] | c # t \<Rightarrow> t)
         in if (rest = [] \<or> hd rest = 46) \<and> list_all isdigit fp \<and> \<not> (ip = [] \<and> fp = [])
            then Some (Num (of_nat (digits_val 0 ip)
                            + of_nat (digits_val 0 fp) / 10 ^ length fp))
            else None))"

fun fneg :: "pyfloat \<Rightarrow> pyfloat" where
  "fneg (Num a) = Num (- a)"
| "fneg PosInf = NegInf"
| "fneg NegInf = PosInf"
| "fneg NaN = NaN"

definition ref_float :: "pystr \<Rightarrow> pyfloat option" where
  "ref_float s =
     (case strip s of
        [] \<Rightarrow> None
      | c # t \<Rightarrow>
          if c = 45 then map_option fneg (ref_unsigned t)
          else if c = 43 then ref_unsigned t
          else ref_unsigned (c # t))"

fun ref_truediv :: "pyfloat \<Rightarrow> pyfloat \<Rightarrow> pyfloat" where
  "ref_truediv NaN y = NaN"
| "ref_truediv x NaN = NaN"
| "ref_truediv (Num a) (Num b) = Num (a / b)"
| "ref_truediv (Num a) y = Num 0"
| "ref_truediv x (Num b) = (if 0 \<le> b then x else fneg x)"
| "ref_truediv x y = NaN"

text \<open>
  Rounding to two decimals, ties to the even neighbour, of the exact rational; CPython
  rounds the binary value, so the two agree where the value is representable (not at
  \<open>2.675\<close>, whose binary value lies below the tie).
\<close>

definition round_half_even :: "rat \<Rightarrow> int" where
  "round_half_even x =
     (let n = \<lfloor>x\<rfloor>; r = x - of_int n
      in if r < 1 / 2 then n
         else if 1 / 2 < r then n + 1
         else if even n then n else n + 1)"

fun ref_round2 :: "pyfloat \<Rightarrow> pyfloat" where
  "ref_round2 (Num a) = Num (of_int (round_half_even (a * 100)) / 100)"
| "ref_round2 x = x"

definition cpy :: pylib where
  "cpy = \<lparr>re_valid = ref_valid, re_found = ref_found, str_lower = ref_lower,
          float_of = ref_float, truediv = ref_truediv, round2 = ref_round2\<rparr>"

section \<open>The contract of the field resolver\<close>

text \<open>
  A raw record as the specification has it, an ordered mapping from column names to
  cell texts, seen as a row of the reader.
\<close>

definition text_row :: "(pystr \<times> pystr) list \<Rightarrow> row" where
  "text_row kvs = map (\<lambda>kv. (Some (fst kv), Text (snd kv))) kvs"

text \<open>
  The specification's words for the resolver: the trimmed value of the first column, in
  the record's order, whose name has a case-insensitive match of the pattern; the empty
  string when there is none. \<open>extract_value\<close> is compared with it below.
\<close>

definition resolver_spec :: "pylib \<Rightarrow> (pystr \<times> pystr) list \<Rightarrow> pystr \<Rightarrow> pystr" where
  "resolver_spec L kvs pattern =
     (case find (\<lambda>kv. re_found L pattern (fst kv)) kvs of
        None \<Rightarrow> []
      | Some kv \<Rightarrow> strip (snd kv))"

text \<open>The three patterns of \<open>row_handle\<close> compile, as they do in CPython.\<close>

definition fields_compile :: "pylib \<Rightarrow> bool" where
  "fields_compile L = (re_valid L pat_name \<and> re_valid L pat_price \<and> re_valid L pat_weight)"

section \<open>Where the entries of a load come from\<close>

text \<open>A state with entries appended to the list and output appended to the output.\<close>

definition extend :: "pm_state \<Rightarrow> entry list \<Rightarrow> event list \<Rightarrow> pm_state" where
  "extend st D V = st\<lparr>data := data st @ D, events := events st @ V\<rparr>"

text \<open>
  The entry \<open>e\<close> is what \<open>row_handle\<close> appends for a row of the file \<open>fn\<close>; and it is so
  for one of the files of a listing that \<open>load_prices\<close> selects.
\<close>

definition from_file :: "pylib \<Rightarrow> env \<Rightarrow> pystr \<Rightarrow> entry \<Rightarrow> bool" where
  "from_file L E fn e =
     (case files E fn of
        CannotOpen \<Rightarrow> False
      | Reading rows fin \<Rightarrow> list_ex (\<lambda>r. row_entry L fn r = Inr e) rows)"

definition produced_by :: "pylib \<Rightarrow> env \<Rightarrow> pystr list \<Rightarrow> entry \<Rightarrow> bool" where
  "produced_by L E names e = list_ex (\<lambda>fn. is_price_file L fn \<and> from_file L E fn e) names"

section \<open>Scenarios\<close>

text \<open>
  The texts of the specification's scenarios. The column names are \<open>tovar\<close>, \<open>cena\<close>
  and \<open>ves\<close>; the product names are \<open>Moloko\<close> and \<open>Molochnyj shokolad\<close>; the query
  is \<open>mol\<close> (all in Cyrillic); the files are \<open>price_list.csv\<close> and \<open>report.csv\<close>.
\<close>

definition col_tovar :: pystr where
  "col_tovar = [1090, 1086, 1074, 1072, 1088]"

definition col_cena :: pystr where
  "col_cena = [1094, 1077, 1085, 1072]"

definition col_ves :: pystr where
  "col_ves = [1074, 1077, 1089]"

definition moloko :: pystr where
  "moloko = [1052, 1086, 1083, 1086, 1082, 1086]"

definition shokolad :: pystr where
  "shokolad = [1052, 1086, 1083, 1086, 1095, 1085, 1099, 1081, 32,
               1096, 1086, 1082, 1086, 1083, 1072, 1076]"

definition query_mol :: pystr where
  "query_mol = [1084, 1086, 1083]"

definition price_list_csv :: pystr where
  "price_list_csv = [112, 114, 105, 99, 101, 95, 108, 105, 115, 116, 46, 99, 115, 118]"

definition report_csv :: pystr where
  "report_csv = [114, 101, 112, 111, 114, 116, 46, 99, 115, 118]"

text \<open>The row \<open>Moloko, 80,5, 1\<close> and rows with other weights and prices.\<close>

definition milk_row :: "(pystr \<times> pystr) list" where
  "milk_row = [(col_tovar, moloko), (col_cena, [56, 48, 44, 53]), (col_ves, [49])]"

definition choc_row :: "(pystr \<times> pystr) list" where
  "choc_row = [(col_tovar, shokolad), (col_cena, [49, 50, 48]), (col_ves, [49])]"

definition zero_row :: "(pystr \<times> pystr) list" where
  "zero_row = [(col_tovar, moloko), (col_cena, [56, 48, 44, 53]), (col_ves, [48])]"

definition neg_row :: "(pystr \<times> pystr) list" where
  "neg_row = [(col_tovar, moloko), (col_cena, [45, 53]), (col_ves, [45, 49])]"

definition nameless_row :: "(pystr \<times> pystr) list" where
  "nameless_row = [(col_cena, [56, 48, 44, 53]), (col_ves, [49])]"

definition unnamed_choc_row :: "(pystr \<times> pystr) list" where
  "unnamed_choc_row = [(col_cena, [49, 50, 48]), (col_ves, [49])]"

definition weightless_row :: "(pystr \<times> pystr) list" where
  "weightless_row = [(col_tovar, moloko), (col_cena, [56, 48, 44, 53])]"

text \<open>
  A row whose columns are \<open>CENA\<close> in capitals, holding \<open>80,5\<close> between blanks, and then
  \<open>Roznica\<close>, holding \<open>99\<close>: two columns match the price pattern.
\<close>

definition two_prices_row :: "(pystr \<times> pystr) list" where
  "two_prices_row =
     [(col_tovar, moloko),
      ([1062, 1045, 1053, 1040], [32, 56, 48, 44, 53, 9, 32]),
      ([1056, 1086, 1079, 1085, 1080, 1094, 1072], [57, 57])]"

definition milk_entry :: entry where
  "milk_entry = \<lparr>file_name = price_list_csv, product_name = moloko,
                  price = Num (161 / 2), weight = Num 1, ratio = Num (161 / 2)\<rparr>"

definition choc_entry :: entry where
  "choc_entry = \<lparr>file_name = price_list_csv, product_name = shokolad,
                  price = Num 120, weight = Num 1, ratio = Num 120\<rparr>"

definition st_empty :: pm_state where
  "st_empty = \<lparr>data = [], events = []\<rparr>"

text \<open>
  A directory with \<open>price_list.csv\<close>, holding the given rows, and \<open>report.csv\<close>,
  holding the chocolate row.
\<close>

definition dir_with :: "row list \<Rightarrow> env" where
  "dir_with rows =
     \<lparr>listdir = (\<lambda>d. Inr [price_list_csv, report_csv]),
      files = (\<lambda>fn. if fn = price_list_csv then Reading rows None
                     else if fn = report_csv then Reading [text_row choc_row] None
                     else CannotOpen)\<rparr>"

definition hleb :: pystr where
  "hleb = [1061, 1083, 1077, 1073]"

definition bread_entry :: entry where
  "bread_entry = \<lparr>file_name = report_csv, product_name = hleb,
                   price = Num 50, weight = Num 1, ratio = Num 50\<rparr>"

text \<open>A second milk entry from the other file, with the ratio of the first.\<close>

definition milk_entry2 :: entry where
  "milk_entry2 = \<lparr>file_name = report_csv, product_name = moloko,
                   price = Num 161, weight = Num 2, ratio = Num (161 / 2)\<rparr>"

definition st_catalog :: pm_state where
  "st_catalog = \<lparr>data = [choc_entry, bread_entry, milk_entry, milk_entry2], events = []\<rparr>"

text \<open>
  Rows with the prices \<open>2\<close>, \<open>nan\<close> and \<open>1\<close> and the weight \<open>1\<close>, and the entries
  they load as: \<open>float('nan')\<close> is NaN, and so is the ratio.
\<close>

definition two_row :: "(pystr \<times> pystr) list" where
  "two_row = [(col_tovar, moloko), (col_cena, [50]), (col_ves, [49])]"

definition nan_row :: "(pystr \<times> pystr) list" where
  "nan_row = [(col_tovar, moloko), (col_cena, [110, 97, 110]), (col_ves, [49])]"

definition one_row :: "(pystr \<times> pystr) list" where
  "one_row = [(col_tovar, moloko), (col_cena, [49]), (col_ves, [49])]"

definition two_entry :: entry where
  "two_entry = \<lparr>file_name = price_list_csv, product_name = moloko,
                 price = Num 2, weight = Num 1, ratio = Num 2\<rparr>"

definition nan_entry :: entry where
  "nan_entry = \<lparr>file_name = price_list_csv, product_name = moloko,
                 price = NaN, weight = Num 1, ratio = NaN\<rparr>"

definition one_entry :: entry where
  "one_entry = \<lparr>file_name = price_list_csv, product_name = moloko,
                 price = Num 1, weight = Num 1, ratio = Num 1\<rparr>"

definition st_nan :: pm_state where
  "st_nan = \<lparr>data = [two_entry, nan_entry, one_entry], events = []\<rparr>"

text \<open>
  Rows of the reader for ragged lines. Under the header \<open>cena, ves\<close> the line
  \<open>80,5,1\<close> has a surplus cell, kept under the key \<open>None\<close>; so has \<open>120,1,7\<close>, and
  under the header \<open>tovar, ves\<close> the line \<open>Moloko,1,2\<close>. Under the header
  \<open>tovar, cena, ves\<close> the line \<open>Moloko,80\<close> is short, and its weight is \<open>None\<close>; under
  the header \<open>cena, tovar\<close> the line \<open>80\<close> is short, and its name is \<open>None\<close>.
\<close>

definition surplus_row :: row where
  "surplus_row = [(Some col_cena, Text [56, 48]), (Some col_ves, Text [53]),
                  (None, ListCell [[49]])]"

definition surplus_choc_row :: row where
  "surplus_choc_row = [(Some col_cena, Text [49, 50, 48]), (Some col_ves, Text [49]),
                       (None, ListCell [[55]])]"


definition short_weight_row :: row where
  "short_weight_row = [(Some col_tovar, Text moloko), (Some col_cena, Text [56, 48]),
                       (Some col_ves, NoneCell)]"


section \<open>Comparing floats\<close>

lemma flt_irrefl: "\<not> flt x x"
  by (cases x) simp_all

lemma fle_not_flt: "fle a b \<Longrightarrow> \<not> flt b a"
  by (cases a; cases b) simp_all

lemma not_flt_fle: "a \<noteq> NaN \<Longrightarrow> b \<noteq> NaN \<Longrightarrow> \<not> flt b a \<Longrightarrow> fle a b"
  by (cases a; cases b) simp_all

lemma flt_fle: "flt a b \<Longrightarrow> fle a b"
  by (cases a; cases b) simp_all

lemma fle_trans: "fle a b \<Longrightarrow> fle b c \<Longrightarrow> fle a c"
  by (cases a; cases b; cases c) simp_all

section \<open>The sort\<close>

lemma mset_insort_lt: "mset (insort_lt key x ys) = add_mset x (mset ys)"
  by (induction ys) simp_all

lemma mset_py_sorted: "mset (py_sorted key xs) = mset xs"
  by (induction xs) (simp_all add: mset_insort_lt)

lemma set_insort_lt: "set (insort_lt key x ys) = insert x (set ys)"
  using mset_insort_lt [of key x ys] by (metis set_mset_add_mset_insert set_mset_mset)

lemma set_py_sorted: "set (py_sorted key xs) = set xs"
  using mset_py_sorted [of key xs] by (metis set_mset_mset)

lemma sorted_insort_lt:
  assumes "key x \<noteq> NaN" and "\<forall>y\<in>set ys. key y \<noteq> NaN"
      and "sorted_wrt (\<lambda>a b. fle (key a) (key b)) ys"
  shows "sorted_wrt (\<lambda>a b. fle (key a) (key b)) (insort_lt key x ys)"
  using assms
proof (induction ys)
  case Nil
  then show ?case by simp
next
  case (Cons y ys)
  show ?case
  proof (cases "flt (key y) (key x)")
    case True
    have "sorted_wrt (\<lambda>a b. fle (key a) (key b)) (insort_lt key x ys)"
      using Cons by simp
    moreover have "\<forall>z\<in>set (insort_lt key x ys). fle (key y) (key z)"
      using Cons.prems(3) True by (auto simp: set_insort_lt flt_fle)
    ultimately show ?thesis using True by simp
  next
    case False
    have xy: "fle (key x) (key y)"
      using False Cons.prems(1,2) by (simp add: not_flt_fle)
    have "\<forall>z\<in>set ys. fle (key x) (key z)"
      using xy Cons.prems(3) by (auto intro: fle_trans)
    then show ?thesis using False xy Cons.prems(3) by simp
  qed
qed

lemma sorted_py_sorted:
  "\<forall>x\<in>set xs. key x \<noteq> NaN \<Longrightarrow> sorted_wrt (\<lambda>a b. fle (key a) (key b)) (py_sorted key xs)"
  by (induction xs) (simp_all add: sorted_insort_lt set_py_sorted)

lemma filter_insort_lt:
  "filter (\<lambda>e. key e = k) (insort_lt key x ys) =
     (if key x = k then x # filter (\<lambda>e. key e = k) ys else filter (\<lambda>e. key e = k) ys)"
  by (induction ys) (auto simp: flt_irrefl)

lemma py_sorted_stable:
  "filter (\<lambda>e. key e = k) (py_sorted key xs) = filter (\<lambda>e. key e = k) xs"
  by (induction xs) (simp_all add: filter_insort_lt)

lemma py_sorted_id:
  "sorted_wrt (\<lambda>a b. fle (key a) (key b)) xs \<Longrightarrow> py_sorted key xs = xs"
proof (induction xs)
  case Nil
  then show ?case by simp
next
  case (Cons x xs)
  then have "py_sorted key xs = xs" by simp
  moreover have "insort_lt key x xs = x # xs"
    using Cons.prems by (cases xs) (simp_all add: fle_not_flt)
  ultimately show ?case by simp
qed

section \<open>The field resolver\<close>

lemma extract_text_row:
  "re_valid L pattern \<Longrightarrow>
   extract_value L (text_row kvs) pattern = Inr (resolver_spec L kvs pattern)"
  by (induction kvs) (simp_all add: text_row_def resolver_spec_def re_search_def)

lemma extract_skip_prefix:
  "re_valid L pattern \<Longrightarrow> \<forall>k\<in>fst ` set pre. \<not> re_found L pattern k \<Longrightarrow>
   extract_value L (text_row pre @ rest) pattern = extract_value L rest pattern"
  by (induction pre) (simp_all add: text_row_def re_search_def)

lemma resolver_spec_none:
  "\<forall>k\<in>fst ` set kvs. \<not> re_found L pattern k \<Longrightarrow> resolver_spec L kvs pattern = []"
  by (induction kvs) (simp_all add: resolver_spec_def)

text \<open>
  The same for any row of the reader: the loop passes the columns whose name is a text
  without a match, and ends at the first column that matches or has the key \<open>None\<close>.
\<close>

lemma extract_skip_cols:
  "re_valid L pattern \<Longrightarrow> \<forall>kv\<in>set pre. \<exists>k. fst kv = Some k \<and> \<not> re_found L pattern k \<Longrightarrow>
   extract_value L (pre @ rest) pattern = extract_value L rest pattern"
proof (induction pre)
  case Nil
  then show ?case by simp
next
  case (Cons kv pre)
  obtain ck v where kv: "kv = (ck, v)" by (cases kv)
  obtain k where k: "ck = Some k" "\<not> re_found L pattern k"
    using Cons.prems(2) kv by auto
  have "extract_value L (pre @ rest) pattern = extract_value L rest pattern"
    using Cons by simp
  then show ?case
    using Cons.prems(1) kv k by (simp add: re_search_def)
qed

lemma extract_no_match:
  "re_valid L pattern \<Longrightarrow> \<forall>kv\<in>set r. \<exists>k. fst kv = Some k \<and> \<not> re_found L pattern k \<Longrightarrow>
   extract_value L r pattern = Inr []"
  using extract_skip_cols [of L pattern r "[]"] by simp

lemma extract_hit_text:
  "re_valid L pattern \<Longrightarrow> \<forall>kv\<in>set pre. \<exists>k. fst kv = Some k \<and> \<not> re_found L pattern k \<Longrightarrow>
   re_found L pattern c \<Longrightarrow>
   extract_value L (pre @ (Some c, Text v) # rest) pattern = Inr (strip v)"
  by (simp add: extract_skip_cols re_search_def)

lemma extract_hit_no_text:
  "re_valid L pattern \<Longrightarrow> \<forall>kv\<in>set pre. \<exists>k. fst kv = Some k \<and> \<not> re_found L pattern k \<Longrightarrow>
   re_found L pattern c \<Longrightarrow> \<forall>s. cl \<noteq> Text s \<Longrightarrow>
   extract_value L (pre @ (Some c, cl) # rest) pattern = Inl AttributeError"
  by (cases cl) (simp_all add: extract_skip_cols re_search_def)

lemma extract_reach_none_key:
  "re_valid L pattern \<Longrightarrow> \<forall>kv\<in>set pre. \<exists>k. fst kv = Some k \<and> \<not> re_found L pattern k \<Longrightarrow>
   extract_value L (pre @ (None, cl) # rest) pattern = Inl TypeError"
  by (simp add: extract_skip_cols re_search_def)

lemma extract_unmatched_cases:
  "re_valid L pattern \<Longrightarrow> \<forall>kv\<in>set r. \<forall>k. fst kv = Some k \<longrightarrow> \<not> re_found L pattern k \<Longrightarrow>
   extract_value L r pattern =
     (if \<forall>kv\<in>set r. fst kv \<noteq> None then Inr [] else Inl TypeError)"
proof (induction r)
  case Nil
  then show ?case by simp
next
  case (Cons kv r)
  obtain ck v where kv: "kv = (ck, v)" by (cases kv)
  have ih: "extract_value L r pattern =
      (if \<forall>kv\<in>set r. fst kv \<noteq> None then Inr [] else Inl TypeError)"
    using Cons by simp
  show ?case
  proof (cases ck)
    case None
    then show ?thesis using Cons.prems(1) kv by (simp add: re_search_def)
  next
    case (Some k)
    then have "\<not> re_found L pattern k" using Cons.prems(2) kv by simp
    then show ?thesis using Cons.prems(1) kv Some ih by (simp add: re_search_def)
  qed
qed


section \<open>Searching\<close>

lemma search_rows_valid:
  "re_valid L query \<Longrightarrow>
   search_rows L query rows = Inr (filter (\<lambda>e. re_found L query (product_name e)) rows)"
  by (induction rows) (simp_all add: re_search_def)

lemma search_rows_invalid:
  "\<not> re_valid L query \<Longrightarrow> rows \<noteq> [] \<Longrightarrow> search_rows L query rows = Inl ReError"
  by (cases rows) (simp_all add: re_search_def)

section \<open>Loading\<close>


lemma extend_extend: "extend (extend st D V) D' V' = extend st (D @ D') (V @ V')"
  by (simp add: extend_def)

lemma row_handle_shape:
  "\<exists>x D V. (\<forall>e\<in>set D. row_entry L f r = Inr e) \<and>
     (\<forall>st. row_handle L f r st = (x, extend st D V))"
proof (cases "row_entry L f r")
  case (Inr e)
  then have "\<forall>st. row_handle L f r st = (None, extend st [e] [])"
    by (simp add: row_handle_def extend_def)
  then show ?thesis using Inr by (metis empty_iff empty_set set_ConsD)
next
  case (Inl ex)
  show ?thesis
  proof (cases "ex = TypeError \<or> ex = ValueError")
    case True
    then have "\<forall>st. row_handle L f r st = (None, extend st [] [RowError r ex])"
      using Inl by (simp add: row_handle_def extend_def)
    then show ?thesis by (metis empty_iff empty_set)
  next
    case False
    then have "\<forall>st. row_handle L f r st = (Some ex, extend st [] [])"
      using Inl by (simp add: row_handle_def extend_def)
    then show ?thesis by (metis empty_iff empty_set)
  qed
qed

lemma rows_loop_shape:
  "\<exists>x D V. (\<forall>e\<in>set D. \<exists>r\<in>set rows. row_entry L f r = Inr e) \<and>
     (\<forall>st. rows_loop L f rows st = (x, extend st D V))"
proof (induction rows)
  case Nil
  have "\<forall>st. rows_loop L f [] st = (None, extend st [] [])"
    by (simp add: extend_def)
  then show ?case by (metis empty_iff empty_set)
next
  case (Cons r rows)
  obtain x D V where h: "\<forall>e\<in>set D. row_entry L f r = Inr e"
    "\<forall>st. row_handle L f r st = (x, extend st D V)"
    using row_handle_shape by blast
  obtain x' D' V' where t: "\<forall>e\<in>set D'. \<exists>r\<in>set rows. row_entry L f r = Inr e"
    "\<forall>st. rows_loop L f rows st = (x', extend st D' V')"
    using Cons.IH by blast
  show ?case
  proof (cases x)
    case None
    have "\<forall>st. rows_loop L f (r # rows) st = (x', extend st (D @ D') (V @ V'))"
      using None h(2) t(2) by (simp add: extend_extend)
    moreover have "\<forall>e\<in>set (D @ D'). \<exists>q\<in>set (r # rows). row_entry L f q = Inr e"
      using h(1) t(1) by auto
    ultimately show ?thesis by blast
  next
    case (Some ex)
    have "\<forall>st. rows_loop L f (r # rows) st = (x, extend st D V)"
      using Some h(2) by simp
    moreover have "\<forall>e\<in>set D. \<exists>q\<in>set (r # rows). row_entry L f q = Inr e"
      using h(1) by auto
    ultimately show ?thesis by blast
  qed
qed

lemma file_handler_shape:
  "\<exists>x V. \<forall>st. file_handler fp ex st = (x, extend st [] V)"
proof (cases "ex = IOError \<or> ex = CsvError")
  case True
  then have "\<forall>st. file_handler fp ex st = (None, extend st [] [FileError fp ex])"
    by (simp add: file_handler_def extend_def)
  then show ?thesis by blast
next
  case False
  then have "\<forall>st. file_handler fp ex st = (Some ex, extend st [] [])"
    by (simp add: file_handler_def extend_def)
  then show ?thesis by blast
qed

lemma load_data_shape:
  "\<exists>x D V. (\<forall>e\<in>set D. from_file L E fp e) \<and>
     (\<forall>st. load_data L E fp st = (x, extend st D V))"
proof (cases "files E fp")
  case CannotOpen
  obtain x V where "\<forall>st. file_handler fp IOError st = (x, extend st [] V)"
    using file_handler_shape by blast
  then have "\<forall>st. load_data L E fp st = (x, extend st [] V)"
    using CannotOpen by (simp add: load_data_def)
  then show ?thesis by (metis empty_iff empty_set)
next
  case (Reading rows fin)
  obtain x D V where r: "\<forall>e\<in>set D. \<exists>r\<in>set rows. row_entry L fp r = Inr e"
    "\<forall>st. rows_loop L fp rows st = (x, extend st D V)"
    using rows_loop_shape by blast
  have D: "\<forall>e\<in>set D. from_file L E fp e"
    using r(1) Reading by (auto simp: from_file_def list_ex_iff)
  show ?thesis
  proof (cases x)
    case (Some ex)
    obtain y W where "\<forall>st. file_handler fp ex st = (y, extend st [] W)"
      using file_handler_shape by blast
    then have "\<forall>st. load_data L E fp st = (y, extend st D (V @ W))"
      using Reading Some r(2) by (simp add: load_data_def extend_extend)
    then show ?thesis using D by blast
  next
    case None
    show ?thesis
    proof (cases fin)
      case None': None
      have "\<forall>st. load_data L E fp st = (None, extend st D V)"
        using Reading None None' r(2) by (simp add: load_data_def)
      then show ?thesis using D by blast
    next
      case (Some ex)
      obtain y W where "\<forall>st. file_handler fp ex st = (y, extend st [] W)"
        using file_handler_shape by blast
      then have "\<forall>st. load_data L E fp st = (y, extend st D (V @ W))"
        using Reading None Some r(2) by (simp add: load_data_def extend_extend)
      then show ?thesis using D by blast
    qed
  qed
qed

lemma files_loop_shape:
  "\<exists>x D V. (\<forall>e\<in>set D. produced_by L E names e) \<and>
     (\<forall>st. files_loop L E names st = (x, extend st D V))"
proof (induction names)
  case Nil
  have "\<forall>st. files_loop L E [] st = (None, extend st [] [])"
    by (simp add: extend_def)
  then show ?case by (metis empty_iff empty_set)
next
  case (Cons fn names)
  obtain x' D' V' where t: "\<forall>e\<in>set D'. produced_by L E names e"
    "\<forall>st. files_loop L E names st = (x', extend st D' V')"
    using Cons.IH by blast
  have t': "\<forall>e\<in>set D'. produced_by L E (fn # names) e"
    using t(1) by (simp add: produced_by_def)
  show ?case
  proof (cases "is_price_file L fn")
    case False
    then have "\<forall>st. files_loop L E (fn # names) st = (x', extend st D' V')"
      using t(2) by simp
    then show ?thesis using t' by blast
  next
    case True
    obtain x D V where h: "\<forall>e\<in>set D. from_file L E fn e"
      "\<forall>st. load_data L E fn st = (x, extend st D V)"
      using load_data_shape by blast
    have h': "\<forall>e\<in>set D. produced_by L E (fn # names) e"
      using h(1) True by (simp add: produced_by_def)
    show ?thesis
    proof (cases x)
      case None
      have "\<forall>st. files_loop L E (fn # names) st = (x', extend st (D @ D') (V @ V'))"
        using True None h(2) t(2) by (simp add: extend_extend)
      moreover have "\<forall>e\<in>set (D @ D'). produced_by L E (fn # names) e"
        using h' t' by auto
      ultimately show ?thesis by blast
    next
      case (Some ex)
      have "\<forall>st. files_loop L E (fn # names) st = (x, extend st D V)"
        using True Some h(2) by simp
      then show ?thesis using h' by blast
    qed
  qed
qed

lemma load_prices_shape:
  "\<exists>x D V. (\<forall>e\<in>set D. case listdir E d of Inl ex \<Rightarrow> False | Inr names \<Rightarrow> produced_by L E names e) \<and>
     (\<forall>st. load_prices L E d st = (x, st\<lparr>data := D, events := events st @ V\<rparr>))"
proof (cases "listdir E d")
  case (Inl ex)
  then have "\<forall>st. load_prices L E d st = (Some ex, st\<lparr>data := [], events := events st @ []\<rparr>)"
    by (simp add: load_prices_def)
  then show ?thesis by (metis empty_iff empty_set)
next
  case (Inr names)
  obtain x D V where h: "\<forall>e\<in>set D. produced_by L E names e"
    "\<forall>st. files_loop L E names st = (x, extend st D V)"
    using files_loop_shape by blast
  have "\<forall>st. load_prices L E d st = (x, st\<lparr>data := D, events := events st @ V\<rparr>)"
    using Inr h(2) by (simp add: load_prices_def extend_def)
  moreover have "\<forall>e\<in>set D. case listdir E d of Inl ex \<Rightarrow> False | Inr names \<Rightarrow> produced_by L E names e"
    using h(1) Inr by simp
  ultimately show ?thesis by blast
qed

lemma row_entry_text_row:
  assumes "fields_compile L"
  shows "row_entry L f (text_row kvs) =
     (case float_of L (replace_comma (resolver_spec L kvs pat_price)) of
        None \<Rightarrow> Inl ValueError
      | Some p \<Rightarrow>
          (case float_of L (replace_comma (resolver_spec L kvs pat_weight)) of
             None \<Rightarrow> Inl ValueError
           | Some w \<Rightarrow>
               if is_zero w then Inl ZeroDivisionError
               else Inr \<lparr>file_name = f, product_name = resolver_spec L kvs pat_name,
                         price = p, weight = w, ratio = round2 L (truediv L p w)\<rparr>))"
  using assms
  by (simp add: row_entry_def fields_compile_def extract_text_row py_float_def py_truediv_def
      split: option.splits)




lemma row_handle_zero_weight:
  assumes "fields_compile L"
    and "float_of L (replace_comma (resolver_spec L kvs pat_price)) = Some p"
    and "float_of L (replace_comma (resolver_spec L kvs pat_weight)) = Some w"
    and "is_zero w"
  shows "row_handle L fname (text_row kvs) st = (Some ZeroDivisionError, st)"
  using assms by (simp add: row_handle_def row_entry_text_row)

section \<open>The reference instance on the scenarios\<close>

lemma cpy_sel:
  "re_valid cpy = ref_valid" "re_found cpy = ref_found" "str_lower cpy = ref_lower"
  "float_of cpy = ref_float" "truediv cpy = ref_truediv" "round2 cpy = ref_round2"
  by (simp_all add: cpy_def)

lemma ref_alts_name:
  "ref_alts pat_name =
     Some [[1085, 1072, 1079, 1074, 1072, 1085, 1080, 1077],
           [1087, 1088, 1086, 1076, 1091, 1082, 1090],
           [1090, 1086, 1074, 1072, 1088],
           [1085, 1072, 1080, 1084, 1077, 1085, 1086, 1074, 1072, 1085, 1080, 1077]]"
  by (simp add: ref_alts_def pat_name_def metachar_def)

lemma ref_alts_price:
  "ref_alts pat_price =
     Some [[1094, 1077, 1085, 1072], [1088, 1086, 1079, 1085, 1080, 1094, 1072]]"
  by (simp add: ref_alts_def pat_price_def metachar_def)

lemma ref_alts_weight:
  "ref_alts pat_weight =
     Some [[1092, 1072, 1089, 1086, 1074, 1082, 1072], [1084, 1072, 1089, 1089, 1072],
           [1074, 1077, 1089]]"
  by (simp add: ref_alts_def pat_weight_def metachar_def)

lemma ref_alts_mol: "ref_alts query_mol = Some [[1084, 1086, 1083]]"
  by (simp add: ref_alts_def query_mol_def metachar_def)

lemma ref_alts_open: "ref_alts [40] = None"
  by (simp add: ref_alts_def metachar_def)

lemma ref_alts_open_mol: "ref_alts (40 # query_mol) = None"
  by (simp add: ref_alts_def query_mol_def metachar_def)

lemma cpy_fields_compile: "fields_compile cpy"
  by (simp add: fields_compile_def cpy_sel ref_valid_def ref_alts_name ref_alts_price
      ref_alts_weight)


lemmas scenario_defs =
  col_tovar_def col_cena_def col_ves_def moloko_def shokolad_def hleb_def
  price_list_csv_def report_csv_def milk_row_def choc_row_def zero_row_def neg_row_def
  nameless_row_def unnamed_choc_row_def weightless_row_def two_prices_row_def
  milk_entry_def milk_entry2_def choc_entry_def bread_entry_def st_empty_def st_catalog_def
  two_row_def nan_row_def one_row_def two_entry_def nan_entry_def one_entry_def st_nan_def

lemmas ref_eval =
  cpy_sel ref_valid_def ref_found_def ref_alts_name ref_alts_price ref_alts_weight
  ref_alts_mol ref_alts_open ref_alts_open_mol ref_lower_def ref_lower_cp_def
  resolver_spec_def strip_def isspace_def replace_comma_def ref_float_def ref_unsigned_def
  isdigit_def round_half_even_def is_zero_def

section \<open>The claims\<close>

text \<open>
  C1. The specification has a row whose weight parses to zero dropped with a
  diagnostic while loading goes on. The code does not do that: \<open>price / weight\<close>
  raises \<open>ZeroDivisionError\<close>, which \<open>except (TypeError, ValueError)\<close> does not
  catch, and neither does the handler of \<open>load_data\<close>. For the row
  \<open>Moloko, 80,5, 0\<close> the exception leaves \<open>row_handle\<close> with nothing printed; in a
  file with the rows milk, zero weight, chocolate, the load ends with that exception
  after the first row, and the chocolate row is never read.
\<close>

theorem zero_weight_aborts_load:
  "row_handle cpy price_list_csv (text_row zero_row) st_empty =
     (Some ZeroDivisionError, st_empty) \<and>
   load_prices cpy (dir_with [text_row milk_row, text_row zero_row, text_row choc_row]) []
       st_empty =
     (Some ZeroDivisionError, \<lparr>data = [milk_entry], events = []\<rparr>)"
proof -
  have p: "float_of cpy (replace_comma (resolver_spec cpy zero_row pat_price)) = Some (Num (161 / 2))"
    by (simp add: ref_eval scenario_defs)
  have w: "float_of cpy (replace_comma (resolver_spec cpy zero_row pat_weight)) = Some (Num 0)"
    by (simp add: ref_eval scenario_defs)
  have z: "row_handle cpy price_list_csv (text_row zero_row) st = (Some ZeroDivisionError, st)" for st
    using cpy_fields_compile p w by (rule row_handle_zero_weight) (simp add: is_zero_def)
  have m: "row_handle cpy price_list_csv (text_row milk_row) st =
      (None, st\<lparr>data := data st @ [milk_entry]\<rparr>)" for st
    by (simp add: row_handle_def row_entry_text_row [OF cpy_fields_compile] ref_eval scenario_defs)
  have f: "is_price_file cpy price_list_csv"
    by (simp add: is_price_file_def endswith_def price_list_csv_def ref_eval)
  show ?thesis
    by (simp add: z m f load_prices_def load_data_def file_handler_def dir_with_def st_empty_def)
qed




text \<open>
  C3. For every well-formed row, one whose price and weight fields resolve to texts
  that parse as numbers once each comma is replaced by a point, with a weight that is
  not zero, \<open>row_handle\<close> appends one entry, whose ratio is
  \<open>round(price / weight, 2)\<close> and whose other fields are the file, the resolved name,
  the price and the weight.
\<close>

theorem row_handle_ratio:
  assumes "fields_compile L"
    and "float_of L (replace_comma (resolver_spec L kvs pat_price)) = Some p"
    and "float_of L (replace_comma (resolver_spec L kvs pat_weight)) = Some w"
    and "\<not> is_zero w"
  shows "row_handle L fname (text_row kvs) st =
           (None, st\<lparr>data := data st @
              [\<lparr>file_name = fname, product_name = resolver_spec L kvs pat_name,
                price = p, weight = w, ratio = round2 L (truediv L p w)\<rparr>]\<rparr>)"
  using assms by (simp add: row_handle_def row_entry_text_row)

text \<open>
  The scenario of the specification: the row \<open>Moloko, 80,5, 1\<close> under the header
  \<open>tovar, cena, ves\<close> yields the entry with the price \<open>80.5\<close>, the weight
  \<open>1.0\<close> and the ratio \<open>80.5\<close>.
\<close>

theorem row_handle_ratio_witness:
  "row_handle cpy price_list_csv (text_row milk_row) st_empty =
     (None, st_empty\<lparr>data := [\<lparr>file_name = price_list_csv, product_name = moloko,
                                 price = Num (161 / 2), weight = Num 1,
                                 ratio = Num (161 / 2)\<rparr>]\<rparr>)"
proof -
  have p: "float_of cpy (replace_comma (resolver_spec cpy milk_row pat_price)) = Some (Num (161 / 2))"
    by (simp add: ref_eval scenario_defs)
  have w: "float_of cpy (replace_comma (resolver_spec cpy milk_row pat_weight)) = Some (Num 1)"
    by (simp add: ref_eval scenario_defs)
  have z: "\<not> is_zero (Num 1)"
    by (simp add: is_zero_def)
  have n: "resolver_spec cpy milk_row pat_name = moloko"
    by (simp add: ref_eval scenario_defs)
  have r: "round2 cpy (truediv cpy (Num (161 / 2)) (Num 1)) = Num (161 / 2)"
    by (simp add: ref_eval)
  show ?thesis
    using row_handle_ratio [OF cpy_fields_compile p w z, of price_list_csv st_empty]
    by (simp add: n r st_empty_def)
qed

text \<open>
  The reader's row for the line \<open>80,5,1\<close> under the header \<open>cena, ves\<close>: no column
  name matches the name pattern, and the lookup of the name does not return the empty
  string, it raises \<open>TypeError\<close> at the key \<open>None\<close>. And for the short line
  \<open>Moloko,80\<close> under \<open>tovar, cena, ves\<close> the lookup of the weight does not return the
  value of the weight column: that value is \<open>None\<close>, and \<open>strip\<close> raises
  \<open>AttributeError\<close>.
\<close>

theorem extract_value_raises_on_ragged_rows:
  "\<not> list_ex (\<lambda>kv. case fst kv of None \<Rightarrow> False | Some k \<Rightarrow> re_found cpy pat_name k)
       surplus_row \<and>
   extract_value cpy surplus_row pat_name = Inl TypeError \<and>
   extract_value cpy short_weight_row pat_weight = Inl AttributeError"
  by (simp add: surplus_row_def short_weight_row_def re_search_def ref_eval scenario_defs)

text \<open>
  C4, as the code has it. For each of the three fields, \<open>extract_value\<close> returns the
  trimmed value of the first column, in the record's order, whose name has a
  case-insensitive match of the field's pattern, when the column names up to that
  column are texts and its value is a text; it returns the empty string when all column
  names are texts and none matches; and the columns after the first match are not
  looked at, whatever they hold. On a record whose names and values are all texts this
  is the resolver's contract. On the reader's rows for ragged lines it raises instead:
  \<open>AttributeError\<close> when the value of the first matching column is no text,
  \<open>TypeError\<close> when the loop reaches the key \<open>None\<close> before any match.
\<close>

theorem extract_value_resolves:
  assumes "fields_compile L" and "pattern \<in> {pat_name, pat_price, pat_weight}"
  shows "extract_value L (text_row kvs) pattern = Inr (resolver_spec L kvs pattern) \<and>
         ((\<forall>kv\<in>set r. \<exists>k. fst kv = Some k \<and> \<not> re_found L pattern k) \<longrightarrow>
            extract_value L r pattern = Inr []) \<and>
         ((\<forall>kv\<in>set pre. \<exists>k. fst kv = Some k \<and> \<not> re_found L pattern k) \<and>
          re_found L pattern c \<longrightarrow>
            extract_value L (pre @ (Some c, Text v) # rest) pattern = Inr (strip v)) \<and>
         ((\<forall>kv\<in>set pre. \<exists>k. fst kv = Some k \<and> \<not> re_found L pattern k) \<and>
          re_found L pattern c \<and> (\<forall>s. cl \<noteq> Text s) \<longrightarrow>
            extract_value L (pre @ (Some c, cl) # rest) pattern = Inl AttributeError) \<and>
         ((\<forall>kv\<in>set pre. \<exists>k. fst kv = Some k \<and> \<not> re_found L pattern k) \<longrightarrow>
            extract_value L (pre @ (None, cl) # rest) pattern = Inl TypeError)"
proof -
  have valid: "re_valid L pattern"
    using assms by (auto simp: fields_compile_def)
  have contract: "extract_value L (text_row kvs) pattern = Inr (resolver_spec L kvs pattern)"
    using valid by (rule extract_text_row)
  have none: "(\<forall>kv\<in>set r. \<exists>k. fst kv = Some k \<and> \<not> re_found L pattern k) \<longrightarrow>
      extract_value L r pattern = Inr []"
    using valid by (simp add: extract_no_match)
  have hit: "(\<forall>kv\<in>set pre. \<exists>k. fst kv = Some k \<and> \<not> re_found L pattern k) \<and>
      re_found L pattern c \<longrightarrow>
      extract_value L (pre @ (Some c, Text v) # rest) pattern = Inr (strip v)"
    using valid by (simp add: extract_hit_text)
  have cell: "(\<forall>kv\<in>set pre. \<exists>k. fst kv = Some k \<and> \<not> re_found L pattern k) \<and>
      re_found L pattern c \<and> (\<forall>s. cl \<noteq> Text s) \<longrightarrow>
      extract_value L (pre @ (Some c, cl) # rest) pattern = Inl AttributeError"
    using valid by (simp add: extract_hit_no_text)
  have key: "(\<forall>kv\<in>set pre. \<exists>k. fst kv = Some k \<and> \<not> re_found L pattern k) \<longrightarrow>
      extract_value L (pre @ (None, cl) # rest) pattern = Inl TypeError"
    using valid by (simp add: extract_reach_none_key)
  show ?thesis using contract none hit cell key by blast
qed

text \<open>
  With two price columns, \<open>CENA\<close> holding \<open>80,5\<close> between blanks and \<open>Roznica\<close>
  holding \<open>99\<close>, the first one wins and is trimmed; there is no weight column, so the
  weight is empty; a \<open>None\<close> value before the match and a surplus cell after it do
  not matter; a price column holding \<open>None\<close> raises \<open>AttributeError\<close>, and the key
  \<open>None\<close> before any price column raises \<open>TypeError\<close>.
\<close>

theorem extract_value_resolves_witness:
  "extract_value cpy (text_row two_prices_row) pat_price = Inr [56, 48, 44, 53] \<and>
   extract_value cpy (text_row two_prices_row) pat_weight = Inr [] \<and>
   extract_value cpy
     ([(Some col_tovar, NoneCell)] @
        (Some [1062, 1045, 1053, 1040], Text [32, 56, 48, 44, 53, 9, 32]) #
        [(None, ListCell [[57, 57]])]) pat_price = Inr [56, 48, 44, 53] \<and>
   extract_value cpy
     ([(Some col_tovar, Text moloko)] @ (Some col_cena, NoneCell) # []) pat_price =
     Inl AttributeError \<and>
   extract_value cpy
     ([(Some col_tovar, Text moloko)] @ (None, ListCell [[57, 57]]) # []) pat_price =
     Inl TypeError"
proof -
  have p: "pat_price \<in> {pat_name, pat_price, pat_weight}"
    and w: "pat_weight \<in> {pat_name, pat_price, pat_weight}"
    by simp_all
  have miss: "\<forall>kv\<in>set [(Some col_tovar, cl)]. \<exists>k. fst kv = Some k \<and> \<not> re_found cpy pat_price k"
    for cl :: cell
    by (simp add: ref_eval scenario_defs)
  have miss_w: "\<forall>kv\<in>set (text_row two_prices_row).
      \<exists>k. fst kv = Some k \<and> \<not> re_found cpy pat_weight k"
    by (simp add: text_row_def ref_eval scenario_defs)
  have found: "re_found cpy pat_price [1062, 1045, 1053, 1040]"
    by (simp add: ref_eval)
  have found': "re_found cpy pat_price col_cena"
    by (simp add: ref_eval scenario_defs)
  have nt: "\<forall>s. NoneCell \<noteq> Text s"
    by simp
  have a: "extract_value cpy (text_row two_prices_row) pat_price = Inr [56, 48, 44, 53]"
    using extract_value_resolves [OF cpy_fields_compile p, of two_prices_row "[]" "[]" "[]" "[]" "[]" NoneCell]
    by (simp add: ref_eval scenario_defs)
  have b: "extract_value cpy (text_row two_prices_row) pat_weight = Inr []"
    using extract_value_resolves [OF cpy_fields_compile w, of "[]" "text_row two_prices_row" "[]" "[]" "[]" "[]" NoneCell] miss_w
    by blast
  have c: "extract_value cpy
     ([(Some col_tovar, NoneCell)] @
        (Some [1062, 1045, 1053, 1040], Text [32, 56, 48, 44, 53, 9, 32]) #
        [(None, ListCell [[57, 57]])]) pat_price = Inr (strip [32, 56, 48, 44, 53, 9, 32])"
    using extract_value_resolves [OF cpy_fields_compile p, of "[]" "[]" "[(Some col_tovar, NoneCell)]"
        "[1062, 1045, 1053, 1040]" "[32, 56, 48, 44, 53, 9, 32]" "[(None, ListCell [[57, 57]])]"
        NoneCell] miss found by blast
  have d: "extract_value cpy
     ([(Some col_tovar, Text moloko)] @ (Some col_cena, NoneCell) # []) pat_price =
     Inl AttributeError"
    using extract_value_resolves [OF cpy_fields_compile p, of "[]" "[]" "[(Some col_tovar, Text moloko)]" col_cena "[]" "[]" NoneCell]
      miss found' nt by blast
  have e: "extract_value cpy
     ([(Some col_tovar, Text moloko)] @ (None, ListCell [[57, 57]]) # []) pat_price =
     Inl TypeError"
    using extract_value_resolves [OF cpy_fields_compile p, of "[]" "[]" "[(Some col_tovar, Text moloko)]" "[]" "[]" "[]"
        "ListCell [[57, 57]]"] miss by blast
  show ?thesis using a b c d e by (simp add: strip_def isspace_def)
qed

text \<open>
  Against the catalog with the ratios \<open>2.0, nan, 1.0\<close>, the query \<open>mol\<close> returns the
  three entries in that order: the entry of ratio \<open>1.0\<close> comes after the one of ratio
  \<open>2.0\<close>. And the query \<open>(\<close>, which is no regular expression, returns nothing: it
  raises \<open>re.error\<close>.
\<close>

theorem search_element_nan_or_malformed:
  "search_element cpy query_mol st_nan = Inr [two_entry, nan_entry, one_entry] \<and>
   flt (ratio one_entry) (ratio two_entry) \<and>
   search_element cpy [40] st_nan = Inl ReError"
proof -
  have hits: "filter (\<lambda>e. re_found cpy query_mol (product_name e)) (data st_nan) =
      [two_entry, nan_entry, one_entry]"
    by (simp add: ref_eval scenario_defs)
  have v: "re_valid cpy query_mol"
    by (simp add: ref_eval)
  have a: "search_element cpy query_mol st_nan = Inr [two_entry, nan_entry, one_entry]"
    using v hits by (simp add: search_element_def search_rows_valid) (simp add: scenario_defs)
  have b: "search_element cpy [40] st_nan = Inl ReError"
    by (simp add: search_element_def st_nan_def re_search_def ref_eval)
  show ?thesis
    using a b by (simp add: scenario_defs)
qed

text \<open>
  C5, as the code has it. For a query that compiles as a regular expression and a
  catalog in which no ratio is NaN, \<open>search_element\<close> returns exactly the entries whose
  name has a case-insensitive match of the query, in ascending order of the ratio,
  entries of equal ratio in their order in the catalog.
\<close>

theorem search_element_filters_and_sorts:
  assumes "re_valid L query" and "\<forall>e\<in>set (data st). ratio e \<noteq> NaN"
  shows "\<exists>result. search_element L query st = Inr result \<and>
           mset result = mset (filter (\<lambda>e. re_found L query (product_name e)) (data st)) \<and>
           sorted_wrt (\<lambda>a b. fle (ratio a) (ratio b)) result \<and>
           (\<forall>k. filter (\<lambda>e. ratio e = k) result =
                filter (\<lambda>e. ratio e = k)
                  (filter (\<lambda>e. re_found L query (product_name e)) (data st)))"
proof -
  let ?hits = "filter (\<lambda>e. re_found L query (product_name e)) (data st)"
  have run: "search_element L query st = Inr (py_sorted ratio ?hits)"
    using assms(1) by (simp add: search_element_def search_rows_valid)
  have "\<forall>e\<in>set ?hits. ratio e \<noteq> NaN"
    using assms(2) by simp
  then have "sorted_wrt (\<lambda>a b. fle (ratio a) (ratio b)) (py_sorted ratio ?hits)"
    by (rule sorted_py_sorted)
  then show ?thesis
    using run by (simp add: mset_py_sorted py_sorted_stable)
qed

text \<open>
  The scenario of the specification: the query \<open>mol\<close> against a catalog holding
  the chocolate (ratio \<open>120.0\<close>), bread, and two milk entries of ratio \<open>80.5\<close>
  returns the two milk entries in their catalog order and then the chocolate.
\<close>

theorem search_element_filters_and_sorts_witness:
  "search_element cpy query_mol st_catalog = Inr [milk_entry, milk_entry2, choc_entry]"
proof -
  have v: "re_valid cpy query_mol"
    by (simp add: ref_eval)
  have n: "\<forall>e\<in>set (data st_catalog). ratio e \<noteq> NaN"
    by (simp add: scenario_defs)
  have hits: "filter (\<lambda>e. re_found cpy query_mol (product_name e)) (data st_catalog) =
      [choc_entry, milk_entry, milk_entry2]"
    by (simp add: ref_eval scenario_defs)
  have run: "search_element cpy query_mol st_catalog =
      Inr (py_sorted ratio [choc_entry, milk_entry, milk_entry2])"
    using v hits by (simp add: search_element_def search_rows_valid)
  have "py_sorted ratio [choc_entry, milk_entry, milk_entry2] =
      [milk_entry, milk_entry2, choc_entry]"
    by (simp add: scenario_defs)
  then show ?thesis
    using search_element_filters_and_sorts [OF v n] run by simp
qed

text \<open>
  The program run on a directory with the milk row, with the queries \<open>(\<close> and
  \<open>mol\<close> typed: the unclosed group raises \<open>re.error\<close>, which ends \<open>main\<close>. Nothing
  is printed after the prompt and the second query is never read.
\<close>

theorem malformed_query_ends_main:
  "main cpy (dir_with [text_row milk_row]) [] [[40], query_mol] st_empty =
     (Some ReError, \<lparr>data = [milk_entry], events = [Prompt]\<rparr>)"
proof -
  have n: "row_handle cpy price_list_csv (text_row milk_row) st =
      (None, st\<lparr>data := data st @ [milk_entry]\<rparr>)" for st
    by (simp add: row_handle_def row_entry_text_row [OF cpy_fields_compile] ref_eval scenario_defs)
  have f: "is_price_file cpy price_list_csv" "\<not> is_price_file cpy report_csv"
    by (simp_all add: is_price_file_def endswith_def price_list_csv_def report_csv_def ref_eval)
  have l: "load_prices cpy (dir_with [text_row milk_row]) [] st_empty =
      (None, \<lparr>data = [milk_entry], events = []\<rparr>)"
    by (simp add: n f load_prices_def load_data_def file_handler_def dir_with_def st_empty_def)
  have x: "\<not> py_in (str_lower cpy [40]) [101, 120, 105, 116]"
    by (simp add: ref_eval)
  have s: "search_element cpy [40] \<lparr>data = [milk_entry], events = [Prompt]\<rparr> = Inl ReError"
    by (simp add: search_element_def re_search_def ref_eval)
  show ?thesis
    using x by (simp add: main_def l find_text_def s)
qed

text \<open>
  C6, as the code has it. A malformed pattern typed as a query, which is not an exit
  word, against a catalog that is not empty: \<open>search_element\<close> raises the pattern
  error and nothing catches it, so it leaves the loop of \<open>main\<close>. The program prints
  no diagnostic of its own, reads no further query, and the catalog is unchanged.
\<close>

theorem malformed_query_leaves_main:
  assumes "\<not> re_valid L query" and "data st \<noteq> []"
    and "\<not> py_in (str_lower L query) [101, 120, 105, 116]"
  shows "main_loop L (query # rest) st =
           (Some ReError, st\<lparr>events := events st @ [Prompt]\<rparr>)"
proof -
  have "search_element L query (st\<lparr>events := events st @ [Prompt]\<rparr>) = Inl ReError"
    using assms(1,2) by (simp add: search_element_def search_rows_invalid)
  then show ?thesis
    using assms(3) by (simp add: find_text_def)
qed

text \<open>
  The query \<open>(mol\<close> against the catalog of four entries, with \<open>mol\<close> typed
  next.
\<close>

theorem malformed_query_leaves_main_witness:
  "main_loop cpy [40 # query_mol, query_mol] st_catalog =
     (Some ReError, st_catalog\<lparr>events := [Prompt]\<rparr>)"
proof -
  have v: "\<not> re_valid cpy (40 # query_mol)"
    by (simp add: ref_eval)
  have d: "data st_catalog \<noteq> []"
    by (simp add: st_catalog_def)
  have x: "\<not> py_in (str_lower cpy (40 # query_mol)) [101, 120, 105, 116]"
    by (simp add: ref_eval query_mol_def)
  show ?thesis
    using malformed_query_leaves_main [OF v d x, of "[query_mol]"]
    by (simp add: st_catalog_def)
qed




text \<open>
  The rows with the prices \<open>2\<close>, \<open>nan\<close> and \<open>1\<close> load as a catalog with the ratios
  \<open>2.0, nan, 1.0\<close>, and the sort of \<open>export_to_html_all\<close> leaves it in that order:
  the ratio \<open>1.0\<close> stands after the ratio \<open>2.0\<close>.
\<close>

theorem nan_ratio_is_not_sorted:
  "load_prices cpy (dir_with [text_row two_row, text_row nan_row, text_row one_row]) []
       st_empty = (None, st_nan) \<and>
   data (export_to_html_all output_all st_nan) = [two_entry, nan_entry, one_entry] \<and>
   flt (ratio one_entry) (ratio two_entry)"
proof -
  have r2: "row_handle cpy price_list_csv (text_row two_row) st =
      (None, st\<lparr>data := data st @ [two_entry]\<rparr>)" for st
    by (simp add: row_handle_def row_entry_text_row [OF cpy_fields_compile] ref_eval scenario_defs)
  have rn: "row_handle cpy price_list_csv (text_row nan_row) st =
      (None, st\<lparr>data := data st @ [nan_entry]\<rparr>)" for st
    by (simp add: row_handle_def row_entry_text_row [OF cpy_fields_compile] ref_eval scenario_defs)
  have r1: "row_handle cpy price_list_csv (text_row one_row) st =
      (None, st\<lparr>data := data st @ [one_entry]\<rparr>)" for st
    by (simp add: row_handle_def row_entry_text_row [OF cpy_fields_compile] ref_eval scenario_defs)
  have f: "is_price_file cpy price_list_csv" "\<not> is_price_file cpy report_csv"
    by (simp_all add: is_price_file_def endswith_def price_list_csv_def report_csv_def ref_eval)
  have l: "load_prices cpy (dir_with [text_row two_row, text_row nan_row, text_row one_row]) []
       st_empty = (None, st_nan)"
    by (simp add: r2 rn r1 f load_prices_def load_data_def file_handler_def dir_with_def
        st_empty_def st_nan_def)
  have s: "data (export_to_html_all output_all st_nan) = [two_entry, nan_entry, one_entry]"
    by (simp add: export_to_html_all_def Let_def scenario_defs)
  show ?thesis
    using l s by (simp add: scenario_defs)
qed

text \<open>
  C8, as the code has it. For a catalog in which no ratio is NaN, the sort of
  \<open>export_to_html_all\<close> leaves the list in ascending order of the ratio, with the same
  entries as before, entries of equal ratio in their former order; and sorting again
  changes nothing.
\<close>

theorem export_sorts_catalog:
  assumes "\<forall>e\<in>set (data st). ratio e \<noteq> NaN"
  shows "sorted_wrt (\<lambda>a b. fle (ratio a) (ratio b)) (data (export_to_html_all fname st)) \<and>
         mset (data (export_to_html_all fname st)) = mset (data st) \<and>
         (\<forall>k. filter (\<lambda>e. ratio e = k) (data (export_to_html_all fname st)) =
              filter (\<lambda>e. ratio e = k) (data st)) \<and>
         data (export_to_html_all fname' (export_to_html_all fname st)) =
           data (export_to_html_all fname st)"
proof -
  have d: "data (export_to_html_all f s) = py_sorted ratio (data s)" for f s
    by (simp add: export_to_html_all_def Let_def)
  have s: "sorted_wrt (\<lambda>a b. fle (ratio a) (ratio b)) (py_sorted ratio (data st))"
    using assms by (rule sorted_py_sorted)
  then have "py_sorted ratio (py_sorted ratio (data st)) = py_sorted ratio (data st)"
    by (rule py_sorted_id)
  then show ?thesis
    using s by (simp add: d mset_py_sorted py_sorted_stable)
qed

text \<open>
  The catalog chocolate, bread, milk, milk becomes bread, milk, milk, chocolate, and
  stays so.
\<close>

theorem export_sorts_catalog_witness:
  "data (export_to_html_all output_all st_catalog) =
     [bread_entry, milk_entry, milk_entry2, choc_entry] \<and>
   data (export_to_html_all output_all (export_to_html_all output_all st_catalog)) =
     [bread_entry, milk_entry, milk_entry2, choc_entry]"
proof -
  have n: "\<forall>e\<in>set (data st_catalog). ratio e \<noteq> NaN"
    by (simp add: scenario_defs)
  have d: "data (export_to_html_all output_all st_catalog) =
      [bread_entry, milk_entry, milk_entry2, choc_entry]"
    by (simp add: export_to_html_all_def Let_def scenario_defs)
  show ?thesis
    using export_sorts_catalog [OF n, of output_all output_all] d by simp
qed

text \<open>
  C9. \<open>load_prices\<close> empties the list before it reads the first file: the catalog
  after a load does not depend on the catalog before it, and each of its entries is
  what \<open>row_handle\<close> appends for a row of a file of this pass that the filter
  selects (none at all when the directory cannot be listed).
\<close>

theorem load_prices_replaces:
  "data (snd (load_prices L E d st)) = data (snd (load_prices L E d st')) \<and>
   (\<forall>e\<in>set (data (snd (load_prices L E d st))).
      case listdir E d of Inl ex \<Rightarrow> False | Inr names \<Rightarrow> produced_by L E names e)"
proof -
  obtain x D V where D: "\<forall>e\<in>set D. case listdir E d of Inl ex \<Rightarrow> False
      | Inr names \<Rightarrow> produced_by L E names e"
    and run: "\<forall>st. load_prices L E d st = (x, st\<lparr>data := D, events := events st @ V\<rparr>)"
    using load_prices_shape by blast
  have "data (snd (load_prices L E d st)) = D" "data (snd (load_prices L E d st')) = D"
    using run by simp_all
  then show ?thesis using D by simp
qed

text \<open>
  A load of the chocolate row followed by a load of the milk row leaves the milk
  entry alone.
\<close>

theorem load_prices_replaces_witness:
  "data (snd (load_prices cpy (dir_with [text_row milk_row]) []
     (snd (load_prices cpy (dir_with [text_row choc_row]) [] st_empty)))) = [milk_entry] \<and>
   data (snd (load_prices cpy (dir_with [text_row choc_row]) [] st_empty)) = [choc_entry] \<and>
   produced_by cpy (dir_with [text_row milk_row]) [price_list_csv, report_csv] milk_entry"
proof -
  have n: "row_handle cpy price_list_csv (text_row milk_row) st =
      (None, st\<lparr>data := data st @ [milk_entry]\<rparr>)" for st
    by (simp add: row_handle_def row_entry_text_row [OF cpy_fields_compile] ref_eval scenario_defs)
  have c: "row_handle cpy price_list_csv (text_row choc_row) st =
      (None, st\<lparr>data := data st @ [choc_entry]\<rparr>)" for st
    by (simp add: row_handle_def row_entry_text_row [OF cpy_fields_compile] ref_eval scenario_defs)
  have f: "is_price_file cpy price_list_csv" "\<not> is_price_file cpy report_csv"
    by (simp_all add: is_price_file_def endswith_def price_list_csv_def report_csv_def ref_eval)
  have m: "data (snd (load_prices cpy (dir_with [text_row milk_row]) [] st_empty)) = [milk_entry]"
    by (simp add: n f load_prices_def load_data_def file_handler_def dir_with_def)
  have k: "data (snd (load_prices cpy (dir_with [text_row choc_row]) [] st_empty)) = [choc_entry]"
    by (simp add: c f load_prices_def load_data_def file_handler_def dir_with_def)
  have l: "listdir (dir_with [text_row milk_row]) [] = Inr [price_list_csv, report_csv]"
    by (simp add: dir_with_def)
  show ?thesis
    using load_prices_replaces [of cpy "dir_with [text_row milk_row]" "[]"
        "snd (load_prices cpy (dir_with [text_row choc_row]) [] st_empty)" st_empty] m k l
    by simp
qed

text \<open>
  The reader's row for the line \<open>80,5,1\<close> under the header \<open>cena, ves\<close>: no column
  name matches the name pattern, the price \<open>80\<close> and the weight \<open>5\<close> resolve and
  parse, and the row is reported and skipped: the lookup of the name reaches the key
  \<open>None\<close> of the surplus cell and raises \<open>TypeError\<close>.
\<close>

theorem surplus_row_without_name_is_skipped:
  "\<not> list_ex (\<lambda>kv. case fst kv of None \<Rightarrow> False | Some k \<Rightarrow> re_found cpy pat_name k)
       surplus_row \<and>
   py_float cpy (replace_comma [56, 48]) = Inr (Num 80) \<and>
   extract_value cpy surplus_row pat_price = Inr [56, 48] \<and>
   py_float cpy (replace_comma [53]) = Inr (Num 5) \<and>
   extract_value cpy surplus_row pat_weight = Inr [53] \<and>
   row_handle cpy price_list_csv surplus_row st_empty =
     (None, st_empty\<lparr>events := [RowError surplus_row TypeError]\<rparr>)"
  by (simp add: row_handle_def row_entry_def surplus_row_def re_search_def py_float_def
      ref_eval scenario_defs)

text \<open>
  C10, as the code has it. For a row in which no column name matches the name pattern,
  while price and weight resolve and parse with a weight that is not zero: when all its
  column names are texts, \<open>row_handle\<close> does not skip the row but appends an entry
  whose name is the empty string; when it has the key \<open>None\<close> of a long line, the
  lookup of the name raises \<open>TypeError\<close> there and the row is reported and skipped.
\<close>

theorem row_handle_without_name:
  assumes "fields_compile L"
    and "\<forall>kv\<in>set r. \<forall>k. fst kv = Some k \<longrightarrow> \<not> re_found L pat_name k"
    and "extract_value L r pat_price = Inr ptxt"
    and "float_of L (replace_comma ptxt) = Some p"
    and "extract_value L r pat_weight = Inr wtxt"
    and "float_of L (replace_comma wtxt) = Some w"
    and "\<not> is_zero w"
  shows "((\<forall>kv\<in>set r. fst kv \<noteq> None) \<longrightarrow>
            row_handle L fname r st =
              (None, st\<lparr>data := data st @
                 [\<lparr>file_name = fname, product_name = [],
                   price = p, weight = w, ratio = round2 L (truediv L p w)\<rparr>]\<rparr>)) \<and>
         ((\<exists>kv\<in>set r. fst kv = None) \<longrightarrow>
            row_handle L fname r st =
              (None, st\<lparr>events := events st @ [RowError r TypeError]\<rparr>))"
proof -
  have "re_valid L pat_name"
    using assms(1) by (simp add: fields_compile_def)
  then have n: "extract_value L r pat_name =
      (if \<forall>kv\<in>set r. fst kv \<noteq> None then Inr [] else Inl TypeError)"
    using assms(2) by (rule extract_unmatched_cases)
  show ?thesis
  proof (cases "\<forall>kv\<in>set r. fst kv \<noteq> None")
    case True
    then have "extract_value L r pat_name = Inr []"
      using n by metis
    then have "row_handle L fname r st =
        (None, st\<lparr>data := data st @
           [\<lparr>file_name = fname, product_name = [],
             price = p, weight = w, ratio = round2 L (truediv L p w)\<rparr>]\<rparr>)"
      using assms(3-7)
      by (simp add: row_handle_def row_entry_def py_float_def py_truediv_def)
    then show ?thesis using True by blast
  next
    case False
    then have "extract_value L r pat_name = Inl TypeError"
      using n by metis
    then have "row_handle L fname r st =
        (None, st\<lparr>events := events st @ [RowError r TypeError]\<rparr>)"
      by (simp add: row_handle_def row_entry_def)
    then show ?thesis using False by blast
  qed
qed

text \<open>
  The row with the price \<open>120\<close>, the weight \<open>1\<close> and no name column is appended;
  the reader's row for the line \<open>120,1,7\<close> under the header \<open>cena, ves\<close> is
  skipped.
\<close>

theorem row_handle_without_name_witness:
  "row_handle cpy price_list_csv (text_row unnamed_choc_row) st_empty =
     (None, st_empty\<lparr>data := [\<lparr>file_name = price_list_csv, product_name = [],
                                 price = Num 120, weight = Num 1, ratio = Num 120\<rparr>]\<rparr>) \<and>
   row_handle cpy price_list_csv surplus_choc_row st_empty =
     (None, st_empty\<lparr>events := [RowError surplus_choc_row TypeError]\<rparr>)"
proof -
  have m: "\<forall>kv\<in>set (text_row unnamed_choc_row). \<forall>k. fst kv = Some k \<longrightarrow> \<not> re_found cpy pat_name k"
    by (simp add: text_row_def ref_eval scenario_defs)
  have p: "extract_value cpy (text_row unnamed_choc_row) pat_price = Inr [49, 50, 48]"
    by (simp add: text_row_def re_search_def ref_eval scenario_defs)
  have w: "extract_value cpy (text_row unnamed_choc_row) pat_weight = Inr [49]"
    by (simp add: text_row_def re_search_def ref_eval scenario_defs)
  have m': "\<forall>kv\<in>set surplus_choc_row. \<forall>k. fst kv = Some k \<longrightarrow> \<not> re_found cpy pat_name k"
    by (simp add: surplus_choc_row_def ref_eval scenario_defs)
  have p': "extract_value cpy surplus_choc_row pat_price = Inr [49, 50, 48]"
    by (simp add: surplus_choc_row_def re_search_def ref_eval scenario_defs)
  have w': "extract_value cpy surplus_choc_row pat_weight = Inr [49]"
    by (simp add: surplus_choc_row_def re_search_def ref_eval scenario_defs)
  have fp: "float_of cpy (replace_comma [49, 50, 48]) = Some (Num 120)"
    by (simp add: ref_eval)
  have fw: "float_of cpy (replace_comma [49]) = Some (Num 1)"
    by (simp add: ref_eval)
  have z: "\<not> is_zero (Num 1)"
    by (simp add: is_zero_def)
  have r: "round2 cpy (truediv cpy (Num 120) (Num 1)) = Num 120"
    by (simp add: ref_eval)
  have k: "\<forall>kv\<in>set (text_row unnamed_choc_row). fst kv \<noteq> None"
    by (simp add: text_row_def)
  have k': "\<exists>kv\<in>set surplus_choc_row. fst kv = None"
    by (simp add: surplus_choc_row_def)
  show ?thesis
    using row_handle_without_name [OF cpy_fields_compile m p fp w fw z, of price_list_csv st_empty]
      row_handle_without_name [OF cpy_fields_compile m' p' fp w' fw z, of price_list_csv st_empty]
      k k'
    by (simp add: r st_empty_def)
qed

end
